theory Spec2Isabelle
  imports Complex_Main "HOL-Library.Sublist" "HOL-Library.Multiset"
begin

section \<open>Data model (app/models/chat.py)\<close>

text \<open>
  An instant is a point on the UTC time line, as returned by
  \<^verbatim>\<open>datetime.now(timezone.utc)\<close>. Only the order of instants matters here.
\<close>

type_synonym instant = int

text \<open>\<^verbatim>\<open>ChatMessage\<close>: the role is a free string in the source (not an enum).\<close>

record ChatMessage =
  role :: string
  content :: string
  timestamp :: instant

text \<open>\<^verbatim>\<open>ConversationHistory\<close>: the title is \<^verbatim>\<open>Optional[str]\<close>.\<close>

record ConversationHistory =
  conversation_id :: string
  messages :: "ChatMessage list"
  title :: "string option"
  created_at :: instant
  updated_at :: instant

text \<open>
  The message classes of langchain\_core that the service distinguishes with
  \<^verbatim>\<open>isinstance\<close>: \<^verbatim>\<open>HumanMessage\<close>, \<^verbatim>\<open>AIMessage\<close>, and every other
  subclass of \<^verbatim>\<open>BaseMessage\<close>. Each carries its content.
\<close>

datatype BaseMessage = HumanMessage string | AIMessage string | OtherMessage string

fun message_content :: "BaseMessage \<Rightarrow> string" where
  "message_content (HumanMessage c) = c"
| "message_content (AIMessage c) = c"
| "message_content (OtherMessage c) = c"

text \<open>Assignment to \<^verbatim>\<open>user_message.content\<close>: the class of the message is kept.\<close>

fun set_content :: "BaseMessage \<Rightarrow> string \<Rightarrow> BaseMessage" where
  "set_content (HumanMessage _) c = HumanMessage c"
| "set_content (AIMessage _) c = AIMessage c"
| "set_content (OtherMessage _) c = OtherMessage c"

text \<open>The exceptions that the modelled code can raise or receive from a collaborator.\<close>

datatype exn =
    ValueError string
  | IndexError
  | AttributeError
  | CollaboratorError string

section \<open>Strings\<close>

text \<open>Python's \<^verbatim>\<open>sep.join(parts)\<close>.\<close>

fun join :: "string \<Rightarrow> string list \<Rightarrow> string" where
  "join sep [] = []"
| "join sep [x] = x"
| "join sep (x # y # ys) = x @ sep @ join sep (y # ys)"

text \<open>Python's \<^verbatim>\<open>pat in s\<close> on strings: \<open>pat\<close> occurs in \<open>s\<close> as a contiguous block.\<close>

fun starts_with :: "string \<Rightarrow> string \<Rightarrow> bool" where
  "starts_with [] s = True"
| "starts_with (p # ps) [] = False"
| "starts_with (p # ps) (c # cs) = (p = c \<and> starts_with ps cs)"

fun str_in :: "string \<Rightarrow> string \<Rightarrow> bool" where
  "str_in pat [] = (pat = [])"
| "str_in pat (c # cs) = (starts_with pat (c # cs) \<or> str_in pat cs)"

definition newline :: string where
  "newline = [CHR 0x0A]"

section \<open>Message conversion (app/services/chatbot.py)\<close>

text \<open>
  \<^verbatim>\<open>_convert_to_langchain_messages\<close>: a loop that appends a \<^verbatim>\<open>HumanMessage\<close> for role
  \<^verbatim>\<open>"user"\<close>, an \<^verbatim>\<open>AIMessage\<close> for role \<^verbatim>\<open>"assistant"\<close>, and nothing otherwise.
\<close>

fun convert_to_langchain_messages :: "ChatMessage list \<Rightarrow> BaseMessage list" where
  "convert_to_langchain_messages [] = []"
| "convert_to_langchain_messages (msg # msgs) =
     (if role msg = ''user'' then HumanMessage (content msg) # convert_to_langchain_messages msgs
      else if role msg = ''assistant'' then AIMessage (content msg) # convert_to_langchain_messages msgs
      else convert_to_langchain_messages msgs)"

text \<open>
  \<^verbatim>\<open>_convert_from_langchain_message\<close>; the second argument is the value that
  \<^verbatim>\<open>datetime.now(timezone.utc)\<close> returns for the timestamp.
\<close>

fun convert_from_langchain_message :: "BaseMessage \<Rightarrow> instant \<Rightarrow> ChatMessage" where
  "convert_from_langchain_message (HumanMessage c) t = \<lparr>role = ''user'', content = c, timestamp = t\<rparr>"
| "convert_from_langchain_message (AIMessage c) t = \<lparr>role = ''assistant'', content = c, timestamp = t\<rparr>"
| "convert_from_langchain_message (OtherMessage c) t = \<lparr>role = ''system'', content = c, timestamp = t\<rparr>"

text \<open>The per-message image used to state what the conversion keeps.\<close>

definition to_langchain :: "ChatMessage \<Rightarrow> BaseMessage" where
  "to_langchain msg = (if role msg = ''user'' then HumanMessage (content msg) else AIMessage (content msg))"

definition is_chat_role :: "ChatMessage \<Rightarrow> bool" where
  "is_chat_role msg = (role msg = ''user'' \<or> role msg = ''assistant'')"

section \<open>Turn classification\<close>

text \<open>
  The loop of \<^verbatim>\<open>is_touch_lesson\<close> over \<^verbatim>\<open>conversation.messages\<close>: it sets the flag and
  breaks at the first assistant message whose content contains \<^verbatim>\<open><lesson>\<close>.
\<close>

fun lesson_is_generated :: "ChatMessage list \<Rightarrow> bool" where
  "lesson_is_generated [] = False"
| "lesson_is_generated (msg # msgs) =
     (if role msg = ''assistant'' \<and> str_in ''<lesson>'' (content msg) then True
      else lesson_is_generated msgs)"

section \<open>Collaborators and process state\<close>

text \<open>
  The external collaborators are parameters of the model. \<open>llm_invoke\<close> is
  \<^verbatim>\<open>self.llm.invoke\<close> and \<open>similarity_search_with_score\<close> the vector store's method
  (a document is represented by its \<^verbatim>\<open>page_content\<close>, a score by its value); either may
  raise. \<open>now n\<close> is what the \<open>n\<close>-th call of \<^verbatim>\<open>datetime.now(timezone.utc)\<close> returns,
  \<open>uuid4 n\<close> the \<open>n\<close>-th \<^verbatim>\<open>str(uuid.uuid4())\<close>, and \<open>pymongo_error n\<close> tells whether the
  \<open>n\<close>-th operation on the collection raises \<^verbatim>\<open>PyMongoError\<close>. \<open>initialized\<close> says that
  \<^verbatim>\<open>llm\<close>, \<^verbatim>\<open>embeddings\<close>, \<^verbatim>\<open>vector_store\<close> and \<^verbatim>\<open>graph\<close> are all set, and
  \<open>openai_model\<close> is \<^verbatim>\<open>settings.openai_model\<close>.
\<close>

record env =
  initialized :: bool
  openai_model :: string
  llm_invoke :: "BaseMessage list \<Rightarrow> exn + BaseMessage"
  similarity_search_with_score :: "string \<Rightarrow> exn + (string \<times> real) list"
  now :: "nat \<Rightarrow> instant"
  uuid4 :: "nat \<Rightarrow> string"
  pymongo_error :: "nat \<Rightarrow> bool"

text \<open>
  The mutable state: the MongoDB collection (\<open>None\<close> when \<^verbatim>\<open>self.collection is None\<close>;
  otherwise its documents in natural order), the numbers of clock readings, identifiers drawn
  and collection operations so far, and the logs of the requests sent to the language model
  and to \<^verbatim>\<open>web_search\<close>.
\<close>

record world =
  collection :: "ConversationHistory list option"
  clock_reads :: nat
  uuid_draws :: nat
  store_ops :: nat
  llm_calls :: "BaseMessage list list"
  web_search_calls :: "string list"

definition datetime_now :: "env \<Rightarrow> world \<Rightarrow> instant \<times> world" where
  "datetime_now e w = (now e (clock_reads w), w\<lparr>clock_reads := Suc (clock_reads w)\<rparr>)"

definition store_op_done :: "world \<Rightarrow> world" where
  "store_op_done w = w\<lparr>store_ops := Suc (store_ops w)\<rparr>"

section \<open>Conversation store (app/services/mongodb.py)\<close>

text \<open>\<^verbatim>\<open>find_one({"conversation_id": cid})\<close>: the first matching document.\<close>

fun find_one :: "string \<Rightarrow> ConversationHistory list \<Rightarrow> ConversationHistory option" where
  "find_one cid [] = None"
| "find_one cid (d # ds) = (if conversation_id d = cid then Some d else find_one cid ds)"

text \<open>
  \<^verbatim>\<open>update_one({"conversation_id": cid}, {"$set": doc}, upsert=True)\<close>, where \<open>doc\<close> holds
  every field of the model: the first matching document takes the new fields; when none
  matches the document is inserted.
\<close>

fun update_one_upsert :: "string \<Rightarrow> ConversationHistory \<Rightarrow> ConversationHistory list \<Rightarrow> ConversationHistory list" where
  "update_one_upsert cid doc [] = [doc]"
| "update_one_upsert cid doc (d # ds) =
     (if conversation_id d = cid then doc # ds else d # update_one_upsert cid doc ds)"

text \<open>\<^verbatim>\<open>delete_one({"conversation_id": cid})\<close>: removes the first matching document.\<close>

fun delete_one :: "string \<Rightarrow> ConversationHistory list \<Rightarrow> ConversationHistory list" where
  "delete_one cid [] = []"
| "delete_one cid (d # ds) = (if conversation_id d = cid then ds else d # delete_one cid ds)"

text \<open>
  \<^verbatim>\<open>MongoDBService.save_conversation\<close>. The clock is read inside the \<^verbatim>\<open>try\<close> before
  the write; a \<^verbatim>\<open>PyMongoError\<close> is caught and reported as \<open>False\<close>.
\<close>

definition save_conversation :: "env \<Rightarrow> world \<Rightarrow> ConversationHistory \<Rightarrow> bool \<times> world" where
  "save_conversation e w conversation =
     (case collection w of
        None \<Rightarrow> (False, w)
      | Some docs \<Rightarrow>
          (let (t, w1) = datetime_now e w;
               conversation_dict = conversation\<lparr>updated_at := t\<rparr>
           in if pymongo_error e (store_ops w1) then (False, store_op_done w1)
              else (True, store_op_done
                      (w1\<lparr>collection :=
                            Some (update_one_upsert (conversation_id conversation) conversation_dict docs)\<rparr>))))"

text \<open>\<^verbatim>\<open>MongoDBService.get_conversation\<close>.\<close>

definition get_conversation :: "env \<Rightarrow> world \<Rightarrow> string \<Rightarrow> ConversationHistory option \<times> world" where
  "get_conversation e w cid =
     (case collection w of
        None \<Rightarrow> (None, w)
      | Some docs \<Rightarrow>
          if pymongo_error e (store_ops w) then (None, store_op_done w)
          else (find_one cid docs, store_op_done w))"

text \<open>\<^verbatim>\<open>MongoDBService.delete_conversation\<close>: \<^verbatim>\<open>deleted_count > 0\<close>.\<close>

definition delete_conversation :: "env \<Rightarrow> world \<Rightarrow> string \<Rightarrow> bool \<times> world" where
  "delete_conversation e w cid =
     (case collection w of
        None \<Rightarrow> (False, w)
      | Some docs \<Rightarrow>
          if pymongo_error e (store_ops w) then (False, store_op_done w)
          else (find_one cid docs \<noteq> None, store_op_done (w\<lparr>collection := Some (delete_one cid docs)\<rparr>)))"

text \<open>
  One entry of \<^verbatim>\<open>list_conversations\<close>. The source renders the two instants with
  \<^verbatim>\<open>isoformat()\<close>; the model keeps the instants. \<^verbatim>\<open>[:50]\<close> is \<open>take 50\<close>.
\<close>

record summary =
  summary_conversation_id :: string
  message_count :: nat
  summary_created_at :: "instant option"
  summary_updated_at :: "instant option"
  last_message :: string

definition conversation_summary :: "ConversationHistory \<Rightarrow> summary" where
  "conversation_summary doc =
     \<lparr>summary_conversation_id = conversation_id doc,
      message_count = length (messages doc),
      summary_created_at = Some (created_at doc),
      summary_updated_at = Some (updated_at doc),
      last_message = (if messages doc \<noteq> [] then take 50 (content (last (messages doc))) @ ''...'' else [])\<rparr>"

text \<open>
  \<^verbatim>\<open>.sort("updated_at", -1)\<close>: the documents by descending \<^verbatim>\<open>updated_at\<close>; documents with
  equal keys stay in natural order.
\<close>

definition sort_updated_at_desc :: "ConversationHistory list \<Rightarrow> ConversationHistory list" where
  "sort_updated_at_desc docs = sort_key (\<lambda>d. - updated_at d) docs"

text \<open>\<^verbatim>\<open>MongoDBService.list_conversations\<close>.\<close>

definition list_conversations :: "env \<Rightarrow> world \<Rightarrow> summary list \<times> world" where
  "list_conversations e w =
     (case collection w of
        None \<Rightarrow> ([], w)
      | Some docs \<Rightarrow>
          if pymongo_error e (store_ops w) then ([], store_op_done w)
          else (map conversation_summary (sort_updated_at_desc docs), store_op_done w))"

section \<open>Context retrieval (app/services/chatbot.py)\<close>

text \<open>
  \<^verbatim>\<open>web_search\<close>: its first statement is \<^verbatim>\<open>return []\<close>; the request to the MCP server
  below it is never reached. A call is recorded in the log.
\<close>

definition web_search :: "world \<Rightarrow> string \<Rightarrow> string list \<times> world" where
  "web_search w query = ([], w\<lparr>web_search_calls := web_search_calls w @ [query]\<rparr>)"

text \<open>
  The \<^verbatim>\<open>try\<close> block shared by both retrievers: the documents whose score is above the
  threshold, in the order returned; the empty list when the search raises.
\<close>

definition relevant_docs :: "env \<Rightarrow> real \<Rightarrow> string \<Rightarrow> string list" where
  "relevant_docs e threshold message =
     (case similarity_search_with_score e message of
        Inl _ \<Rightarrow> []
      | Inr found \<Rightarrow> map fst (filter (\<lambda>(doc, score). score > threshold) found))"

text \<open>\<^verbatim>\<open>ChatbotService.aget_context\<close> (threshold 0.9, falls back to \<^verbatim>\<open>web_search\<close>).\<close>

definition aget_context :: "env \<Rightarrow> world \<Rightarrow> string \<Rightarrow> string \<times> world" where
  "aget_context e w message =
     (let docs = relevant_docs e (9 / 10) message
      in if docs = [] then (let (web_results, w1) = web_search w message in (join '' '' web_results, w1))
         else (join '' '' docs, w))"

text \<open>
  \<^verbatim>\<open>ChatbotService.get_context\<close> (threshold 0.7). The fallback branch reads
  \<^verbatim>\<open>web_results = []# await web_search(message)\<close>: no search is made.
\<close>

definition get_context :: "env \<Rightarrow> world \<Rightarrow> string \<Rightarrow> string \<times> world" where
  "get_context e w message =
     (let docs = relevant_docs e (7 / 10) message
      in if docs = [] then (let web_results = [] in (join '' '' web_results, w))
         else (join '' '' docs, w))"

section \<open>Conversation graph (app/services/chatbot.py)\<close>

text \<open>\<^verbatim>\<open>ChatbotService.create_conversation\<close>: two clock readings, then the save.\<close>

definition create_conversation :: "env \<Rightarrow> world \<Rightarrow> string option \<Rightarrow> string \<times> world" where
  "create_conversation e w title_arg =
     (let cid = uuid4 e (uuid_draws w);
          w1 = w\<lparr>uuid_draws := Suc (uuid_draws w)\<rparr>;
          (t1, w2) = datetime_now e w1;
          (t2, w3) = datetime_now e w2;
          conversation = \<lparr>conversation_id = cid, messages = [], title = title_arg,
                          created_at = t1, updated_at = t2\<rparr>;
          (ack, w4) = save_conversation e w3 conversation
      in (cid, w4))"

text \<open>A call of \<^verbatim>\<open>self.llm.invoke(messages)\<close>, with the request recorded in the log.\<close>

definition invoke_llm :: "env \<Rightarrow> world \<Rightarrow> BaseMessage list \<Rightarrow> (exn + BaseMessage) \<times> world" where
  "invoke_llm e w msgs = (llm_invoke e msgs, w\<lparr>llm_calls := llm_calls w @ [msgs]\<rparr>)"

text \<open>\<^verbatim>\<open>ChatbotService.chat_node\<close>: an exception of the model propagates.\<close>

definition chat_node :: "env \<Rightarrow> world \<Rightarrow> BaseMessage list \<Rightarrow> (exn + BaseMessage) \<times> world" where
  "chat_node e w msgs = invoke_llm e w msgs"

text \<open>The f-string of \<^verbatim>\<open>build_topic_node\<close>, with its line breaks and indentation.\<close>

definition lesson_prompt :: "string \<Rightarrow> string \<Rightarrow> string" where
  "lesson_prompt context message =
     newline @
     ''            Context: '' @ newline @
     ''            ```md'' @ newline @
     ''            '' @ context @ newline @
     ''            ```'' @ newline @
     ''            Build a structured lesson for beginners about the following users'' @ [CHR 0x27] @
       ''s topic and above context:'' @ newline @
     ''            User message:'' @ newline @
     ''            '' @ message @ newline @
     newline @
     ''            --------------------------------'' @ newline @
     ''            The Output should be in the following format:'' @ newline @
     ''            <h4><topic>Summarized topic from user message</topic></h4>'' @ newline @
     ''            <lesson>Generated a lesson as HTML format</lesson>'' @ newline @
     ''            --------------------------------'' @ newline @
     ''            IMPORTANT:'' @ newline @
     ''            - remove <br> tags in output'' @ newline @
     ''            ''"

text \<open>
  What a node hands back in \<^verbatim>\<open>{"messages": [response]}\<close>: a message of the model, or
  the bare string that \<^verbatim>\<open>build_topic_node\<close> assigns in its \<^verbatim>\<open>except\<close> branch.
\<close>

datatype response = Reply BaseMessage | Text string

text \<open>
  \<^verbatim>\<open>ChatbotService.build_topic_node\<close>. \<^verbatim>\<open>messages.pop()\<close> raises \<^verbatim>\<open>IndexError\<close> on an
  empty list; that and any exception of the model are caught by \<^verbatim>\<open>except Exception\<close>,
  which sets the response to the string \<^verbatim>\<open>"Error building topic"\<close>.
\<close>

definition build_topic_node :: "env \<Rightarrow> world \<Rightarrow> BaseMessage list \<Rightarrow> response \<times> world" where
  "build_topic_node e w msgs =
     (if msgs = [] then (Text ''Error building topic'', w)
      else
        (let user_message = last msgs;
             rest = butlast msgs;
             message = message_content user_message;
             (context, w1) = get_context e w message;
             user_message1 = set_content user_message (lesson_prompt context message);
             (result, w2) = invoke_llm e w1 (rest @ [user_message1])
         in case result of
              Inl ex \<Rightarrow> (Text ''Error building topic'', w2)
            | Inr reply \<Rightarrow> (Reply reply, w2)))"

text \<open>
  \<^verbatim>\<open>is_touch_lesson\<close>: reads the stored conversation; \<^verbatim>\<open>conversation.messages\<close> raises
  \<^verbatim>\<open>AttributeError\<close> when the store returns \<^verbatim>\<open>None\<close>.
\<close>

definition is_touch_lesson :: "env \<Rightarrow> world \<Rightarrow> string \<Rightarrow> (exn + string) \<times> world" where
  "is_touch_lesson e w cid =
     (let (found, w1) = get_conversation e w cid
      in case found of
           None \<Rightarrow> (Inl AttributeError, w1)
         | Some conversation \<Rightarrow>
             (Inr (if lesson_is_generated (messages conversation) then ''generated''
                   else ''not_generated''), w1))"

text \<open>
  The \<^verbatim>\<open>add_messages\<close> reducer of the state's \<^verbatim>\<open>messages\<close> channel converts what a node
  returns into messages; langchain\_core turns a bare string into a \<^verbatim>\<open>HumanMessage\<close>.
\<close>

fun add_messages_coerce :: "response \<Rightarrow> BaseMessage" where
  "add_messages_coerce (Reply m) = m"
| "add_messages_coerce (Text s) = HumanMessage s"

text \<open>
  \<^verbatim>\<open>self.graph.ainvoke(initial_state)\<close> followed by \<^verbatim>\<open>result["messages"][-1]\<close>: the
  conditional edge from \<^verbatim>\<open>START\<close> routes \<^verbatim>\<open>"not_generated"\<close> to \<^verbatim>\<open>build_topic\<close> and
  \<^verbatim>\<open>"generated"\<close> to \<^verbatim>\<open>chat\<close>; the node's response is the last message of the result.
\<close>

definition graph_ainvoke :: "env \<Rightarrow> world \<Rightarrow> BaseMessage list \<Rightarrow> string \<Rightarrow> (exn + BaseMessage) \<times> world" where
  "graph_ainvoke e w msgs cid =
     (case is_touch_lesson e w cid of
        (Inl ex, w1) \<Rightarrow> (Inl ex, w1)
      | (Inr route, w1) \<Rightarrow>
          if route = ''not_generated'' then
            (let (resp, w2) = build_topic_node e w1 msgs in (Inr (add_messages_coerce resp), w2))
          else
            (case chat_node e w1 msgs of
               (Inl ex, w2) \<Rightarrow> (Inl ex, w2)
             | (Inr reply, w2) \<Rightarrow> (Inr reply, w2)))"

section \<open>The turn (ChatbotService.chat)\<close>

text \<open>The f-string assigned to \<^verbatim>\<open>augmented_message\<close>.\<close>

definition augmented :: "string \<Rightarrow> string \<Rightarrow> string" where
  "augmented context message =
     ''CONTEXT:'' @ newline @ ''```md'' @ newline @ context @ newline @ ''```'' @ newline @
     ''-------------'' @ newline @ ''USER MESSAGE:'' @ newline @ message"

text \<open>
  Lines 266 to 274 of \<^verbatim>\<open>chat\<close>: \<^verbatim>\<open>not conversation_id\<close> holds for \<^verbatim>\<open>None\<close> and for the
  empty string; an identifier that the store does not resolve leads to a second creation.
\<close>

definition resolve_conversation ::
  "env \<Rightarrow> world \<Rightarrow> string \<Rightarrow> string option \<Rightarrow> (string \<times> ConversationHistory option) \<times> world" where
  "resolve_conversation e w message conversation_id_arg =
     (let (cid, w1) =
            (case conversation_id_arg of
               None \<Rightarrow> create_conversation e w (Some message)
             | Some c \<Rightarrow> if c = [] then create_conversation e w (Some message) else (c, w));
          (found, w2) = get_conversation e w1 cid
      in case found of
           None \<Rightarrow>
             (let (cid1, w3) = create_conversation e w2 (Some message);
                  (found1, w4) = get_conversation e w3 cid1
              in ((cid1, found1), w4))
         | Some conversation \<Rightarrow> ((cid, Some conversation), w2))"

text \<open>The dictionary that \<^verbatim>\<open>chat\<close> returns.\<close>

record ChatReply =
  reply_message :: string
  reply_conversation_id :: string
  reply_model :: string
  reply_timestamp :: instant

text \<open>
  Lines 276 to 322 of \<^verbatim>\<open>chat\<close>, on the resolved conversation. \<^verbatim>\<open>augmented_message\<close> is
  assigned and not used afterwards. The result of the final save is not inspected.
\<close>

definition chat_turn ::
  "env \<Rightarrow> world \<Rightarrow> string \<Rightarrow> string \<Rightarrow> ConversationHistory \<Rightarrow> (exn + ChatReply) \<times> world" where
  "chat_turn e w message cid conversation =
     (let (t, w1) = datetime_now e w;
          user_message = \<lparr>role = ''user'', content = message, timestamp = t\<rparr>;
          conversation1 = conversation\<lparr>messages := messages conversation @ [user_message]\<rparr>;
          (context, w2) = aget_context e w1 message;
          augmented_message = augmented context message;
          langchain_messages = convert_to_langchain_messages (messages conversation1)
      in case graph_ainvoke e w2 langchain_messages cid of
           (Inl ex, w3) \<Rightarrow> (Inl ex, w3)
         | (Inr ai_response, w3) \<Rightarrow>
             (let (t1, w4) = datetime_now e w3;
                  ai_message = convert_from_langchain_message ai_response t1;
                  conversation2 = (if title conversation1 = None
                                   then conversation1\<lparr>title := Some message\<rparr> else conversation1);
                  conversation3 = conversation2\<lparr>messages := messages conversation2 @ [ai_message]\<rparr>;
                  (t2, w5) = datetime_now e w4;
                  conversation4 = conversation3\<lparr>updated_at := t2\<rparr>;
                  (ack, w6) = save_conversation e w5 conversation4
              in (Inr \<lparr>reply_message = content ai_message, reply_conversation_id = cid,
                        reply_model = openai_model e, reply_timestamp = timestamp ai_message\<rparr>, w6)))"

text \<open>\<^verbatim>\<open>ChatbotService.chat\<close>.\<close>

definition chat :: "env \<Rightarrow> world \<Rightarrow> string \<Rightarrow> string option \<Rightarrow> (exn + ChatReply) \<times> world" where
  "chat e w message conversation_id_arg =
     (if \<not> initialized e
      then (Inl (ValueError ''OpenAI client not initialized. Please provide a valid API key.''), w)
      else
        (let ((cid, found), w1) = resolve_conversation e w message conversation_id_arg
         in case found of
              None \<Rightarrow> (Inl AttributeError, w1)
            | Some conversation \<Rightarrow> chat_turn e w1 message cid conversation))"

section \<open>Observations on the state\<close>

text \<open>The document that the collection holds for an identifier, if any.\<close>

definition stored :: "world \<Rightarrow> string \<Rightarrow> ConversationHistory option" where
  "stored w cid = (case collection w of None \<Rightarrow> None | Some docs \<Rightarrow> find_one cid docs)"

text \<open>
  The invariant on timestamps, relative to a clock: every document was created no later than
  it was last updated, and last updated no later than the next reading of the clock.
\<close>

definition stamps_ok :: "(nat \<Rightarrow> instant) \<Rightarrow> world \<Rightarrow> bool" where
  "stamps_ok clock w =
     (case collection w of
        None \<Rightarrow> True
      | Some docs \<Rightarrow>
          list_all (\<lambda>d. created_at d \<le> updated_at d \<and> updated_at d \<le> clock (clock_reads w)) docs)"

text \<open>
  The states that the service reaches from an empty (or absent) collection through its
  operations, under one clock; the other collaborators may behave differently at every step.
\<close>

inductive reachable :: "(nat \<Rightarrow> instant) \<Rightarrow> world \<Rightarrow> bool" for clock :: "nat \<Rightarrow> instant" where
  start_empty: "collection w = Some [] \<Longrightarrow> reachable clock w"
| start_absent: "collection w = None \<Longrightarrow> reachable clock w"
| after_chat: "reachable clock w \<Longrightarrow> now e = clock \<Longrightarrow> reachable clock (snd (chat e w message cid))"
| after_create: "reachable clock w \<Longrightarrow> now e = clock \<Longrightarrow> reachable clock (snd (create_conversation e w t))"
| after_get: "reachable clock w \<Longrightarrow> now e = clock \<Longrightarrow> reachable clock (snd (get_conversation e w cid))"
| after_list: "reachable clock w \<Longrightarrow> now e = clock \<Longrightarrow> reachable clock (snd (list_conversations e w))"
| after_delete: "reachable clock w \<Longrightarrow> now e = clock \<Longrightarrow> reachable clock (snd (delete_conversation e w cid))"

section \<open>Sample collaborators\<close>

text \<open>Concrete collaborators and states on which the theorems below are instantiated.\<close>

definition llm_down :: "BaseMessage list \<Rightarrow> exn + BaseMessage" where
  "llm_down msgs = Inl (CollaboratorError ''model unavailable'')"

definition llm_lesson :: "BaseMessage list \<Rightarrow> exn + BaseMessage" where
  "llm_lesson msgs = Inr (AIMessage ''<h4><topic>TCP</topic></h4><lesson>SYN</lesson>'')"

definition index_three :: "string \<Rightarrow> exn + (string \<times> real) list" where
  "index_three query = Inr [(''alpha'', 95 / 100), (''beta'', 8 / 10), (''gamma'', 6 / 10)]"

definition index_low :: "string \<Rightarrow> exn + (string \<times> real) list" where
  "index_low query = Inr [(''gamma'', 6 / 10)]"

definition clock_ticks :: "nat \<Rightarrow> instant" where
  "clock_ticks n = 1000 + int n"

definition ids :: "nat \<Rightarrow> string" where
  "ids n = (if n = 0 then ''id-a'' else ''id-b'')"

definition mongo_up :: "nat \<Rightarrow> bool" where
  "mongo_up n = False"

definition env_ok :: env where
  "env_ok = \<lparr>initialized = True, openai_model = ''gpt-3.5-turbo'', llm_invoke = llm_lesson,
             similarity_search_with_score = index_three, now = clock_ticks, uuid4 = ids,
             pymongo_error = mongo_up\<rparr>"

definition env_llm_down :: env where
  "env_llm_down = \<lparr>initialized = True, openai_model = ''gpt-3.5-turbo'', llm_invoke = llm_down,
             similarity_search_with_score = index_low, now = clock_ticks, uuid4 = ids,
             pymongo_error = mongo_up\<rparr>"

definition world_empty :: world where
  "world_empty = \<lparr>collection = Some [], clock_reads = 0, uuid_draws = 0, store_ops = 0,
                  llm_calls = [], web_search_calls = []\<rparr>"

definition msg_lesson :: ChatMessage where
  "msg_lesson = \<lparr>role = ''assistant'', content = ''<h4><topic>TCP</topic></h4><lesson>SYN</lesson>'',
                 timestamp = 3\<rparr>"

definition msg_user :: ChatMessage where
  "msg_user = \<lparr>role = ''user'', content = ''Explain TCP handshakes'', timestamp = 2\<rparr>"

definition msg_followup :: ChatMessage where
  "msg_followup = \<lparr>role = ''user'', content = ''Why three steps?'', timestamp = 4\<rparr>"

definition msg_answer :: ChatMessage where
  "msg_answer = \<lparr>role = ''assistant'',
                 content = ''Both sides must agree on sequence numbers before any data flows.'',
                 timestamp = 5\<rparr>"

definition conv_lesson :: ConversationHistory where
  "conv_lesson = \<lparr>conversation_id = ''c1'',
                  messages = [msg_user, msg_lesson, msg_followup, msg_answer],
                  title = Some ''Explain TCP handshakes'', created_at = 1, updated_at = 5\<rparr>"

definition conv_untitled :: ConversationHistory where
  "conv_untitled = \<lparr>conversation_id = ''c2'', messages = [], title = None,
                    created_at = 6, updated_at = 8\<rparr>"

definition world_two :: world where
  "world_two = \<lparr>collection = Some [conv_lesson, conv_untitled], clock_reads = 0, uuid_draws = 0,
                store_ops = 0, llm_calls = [], web_search_calls = []\<rparr>"

section \<open>Properties\<close>

lemma starts_with_prefix: "starts_with p s = prefix p s"
  by (induction p s rule: starts_with.induct) auto

lemma str_in_sublist: "str_in pat s = sublist pat s"
  by (induction s) (auto simp: starts_with_prefix sublist_Cons_right)

lemma convert_to_langchain_filter:
  "convert_to_langchain_messages msgs = map to_langchain (filter is_chat_role msgs)"
  by (induction msgs) (auto simp: to_langchain_def is_chat_role_def)

lemma convert_to_langchain_append:
  "convert_to_langchain_messages (xs @ ys) =
     convert_to_langchain_messages xs @ convert_to_langchain_messages ys"
  by (simp add: convert_to_langchain_filter)

lemma lesson_is_generated_iff:
  "lesson_is_generated msgs \<longleftrightarrow>
     (\<exists>m \<in> set msgs. role m = ''assistant'' \<and> sublist ''<lesson>'' (content m))"
  by (induction msgs) (auto simp: str_in_sublist)

lemmas sample_defs = env_ok_def env_llm_down_def world_empty_def world_two_def llm_down_def
  llm_lesson_def index_three_def index_low_def clock_ticks_def ids_def mongo_up_def
  msg_lesson_def msg_user_def msg_followup_def msg_answer_def conv_lesson_def
  conv_untitled_def

lemmas turn_defs = chat_def resolve_conversation_def create_conversation_def save_conversation_def
  get_conversation_def store_op_done_def chat_turn_def datetime_now_def aget_context_def
  get_context_def relevant_docs_def web_search_def graph_ainvoke_def is_touch_lesson_def
  chat_node_def build_topic_node_def invoke_llm_def Let_def

subsection \<open>Message conversion\<close>

text \<open>
  Claim C10. The conversion to the model-facing sequence maps, in order, exactly the messages
  whose role is \<^verbatim>\<open>"user"\<close> or \<^verbatim>\<open>"assistant"\<close> and drops every other message. The reverse
  conversion gives the role \<^verbatim>\<open>"system"\<close> to a message that is neither a \<^verbatim>\<open>HumanMessage\<close>
  nor an \<^verbatim>\<open>AIMessage\<close>, and such a stored message is dropped wherever it stands.
\<close>

theorem convert_keeps_chat_roles_only:
  "convert_to_langchain_messages msgs = map to_langchain (filter is_chat_role msgs)
   \<and> role (convert_from_langchain_message (OtherMessage c) t) = ''system''
   \<and> convert_to_langchain_messages (xs @ [convert_from_langchain_message (OtherMessage c) t] @ ys)
       = convert_to_langchain_messages (xs @ ys)"
  by (simp add: convert_to_langchain_filter is_chat_role_def)

subsection \<open>Turn classification\<close>

text \<open>
  Claim C5. For the stored conversation of the given identifier, \<^verbatim>\<open>is_touch_lesson\<close> answers
  \<^verbatim>\<open>"generated"\<close> (the route to the \<^verbatim>\<open>chat\<close> node, a continuation turn) exactly when some
  assistant message anywhere in the history contains \<^verbatim>\<open><lesson>\<close>, and \<^verbatim>\<open>"not_generated"\<close>
  (the route to \<^verbatim>\<open>build_topic\<close>, a first-lesson turn) otherwise. The answer is a function
  of the history.
\<close>

theorem is_touch_lesson_scans_history:
  assumes "get_conversation e w cid = (Some conversation, w1)"
  shows "is_touch_lesson e w cid =
           (Inr (if (\<exists>m \<in> set (messages conversation).
                        role m = ''assistant'' \<and> sublist ''<lesson>'' (content m))
                 then ''generated'' else ''not_generated''), w1)"
  using assms by (simp add: is_touch_lesson_def lesson_is_generated_iff)

text \<open>
  In the sample conversation the lesson is the second of four messages, and the last
  message does not contain the marker.
\<close>

theorem is_touch_lesson_scans_history_witness:
  "is_touch_lesson env_ok world_two ''c1'' = (Inr ''generated'', store_op_done world_two)"
  using is_touch_lesson_scans_history [of env_ok world_two "''c1''" conv_lesson "store_op_done world_two"]
  by (simp add: get_conversation_def sample_defs str_in_sublist [symmetric])

subsection \<open>Context retrieval\<close>

text \<open>
  Claim C4. When the similarity search answers, \<^verbatim>\<open>get_context\<close> returns the texts of exactly
  the passages whose score is strictly above 0.7, joined by single spaces in the order of the
  search result, and leaves the state (in particular the log of web searches) untouched.
  \<^verbatim>\<open>aget_context\<close> does the same with 0.9 when at least one passage passes.
\<close>

theorem retrievers_keep_passages_above_threshold:
  assumes "similarity_search_with_score e query = Inr found"
    and "kept7 = map fst (filter (\<lambda>(doc, score). score > 7 / 10) found)"
    and "kept9 = map fst (filter (\<lambda>(doc, score). score > 9 / 10) found)"
  shows "get_context e w query = (join '' '' kept7, w)
       \<and> (kept9 \<noteq> [] \<longrightarrow> aget_context e w query = (join '' '' kept9, w))"
  unfolding assms(2,3) using assms(1)
  by (simp add: get_context_def aget_context_def relevant_docs_def)

text \<open>Scores 0.95, 0.8 and 0.6: the first two passages are kept at 0.7, in order.\<close>

theorem retrievers_keep_passages_above_threshold_witness:
  "similarity_search_with_score env_ok ''tcp'' =
     Inr [(''alpha'', 95 / 100), (''beta'', 8 / 10), (''gamma'', 6 / 10)]
   \<and> get_context env_ok world_empty ''tcp'' = (''alpha beta'', world_empty)
   \<and> aget_context env_ok world_empty ''tcp'' = (''alpha'', world_empty)"
  using retrievers_keep_passages_above_threshold [of env_ok "''tcp''"
      "[(''alpha'', 95 / 100), (''beta'', 8 / 10), (''gamma'', 6 / 10)]"
      "[''alpha'', ''beta'']" "[''alpha'']" world_empty]
  by (simp add: env_ok_def index_three_def)

text \<open>
  Claim C3. With one passage of score 0.6, nothing passes either threshold. \<^verbatim>\<open>get_context\<close>
  then returns the empty string without any call of \<^verbatim>\<open>web_search\<close>; \<^verbatim>\<open>aget_context\<close> calls it
  once with the query; and \<^verbatim>\<open>web_search\<close> itself answers with the empty list.
\<close>

theorem get_context_skips_web_search:
  "relevant_docs env_llm_down (7 / 10) ''tcp'' = []
   \<and> get_context env_llm_down world_empty ''tcp'' = ([], world_empty)
   \<and> web_search_calls (snd (get_context env_llm_down world_empty ''tcp'')) = []
   \<and> web_search_calls (snd (aget_context env_llm_down world_empty ''tcp'')) = [''tcp'']
   \<and> fst (web_search world_empty ''tcp'') = []"
  by (simp add: get_context_def aget_context_def relevant_docs_def web_search_def sample_defs)

subsection \<open>Prompt building\<close>

text \<open>
  Claim C6, as amended. On an empty message list \<^verbatim>\<open>build_topic_node\<close> raises nothing: the
  failed \<^verbatim>\<open>pop\<close> is caught and the node answers with the string
  \<^verbatim>\<open>"Error building topic"\<close>, in every state. Within \<^verbatim>\<open>chat\<close> the list handed to the graph
  is the conversion of a history that ends with the user message just appended, and that
  list is never empty.
\<close>

theorem build_topic_node_empty_history_placeholder:
  "build_topic_node e w [] = (Text ''Error building topic'', w)
   \<and> convert_to_langchain_messages
         (history @ [\<lparr>role = ''user'', content = message, timestamp = t\<rparr>]) \<noteq> []"
  by (simp add: build_topic_node_def convert_to_langchain_append)

text \<open>
  Claim C6 as stated fails: run on an empty list for a conversation without a lesson, the
  graph finishes without an exception and its last message is the placeholder.
\<close>

theorem empty_history_no_error_counterexample:
  "build_topic_node env_ok world_two [] = (Text ''Error building topic'', world_two)
   \<and> graph_ainvoke env_ok world_two [] ''c2''
       = (Inr (HumanMessage ''Error building topic''), store_op_done world_two)"
  by (simp add: build_topic_node_def graph_ainvoke_def is_touch_lesson_def get_conversation_def
      sample_defs)

text \<open>
  Claim C2. A continuation turn on the sample conversation, with retrieved context
  \<^verbatim>\<open>alpha\<close>: the one request sent to the language model is the converted history followed
  by the user text as typed. The string built for \<^verbatim>\<open>augmented_message\<close> is not part of it.
\<close>

theorem continuation_request_not_augmented:
  "fst (is_touch_lesson env_ok world_two ''c1'') = Inr ''generated''
   \<and> fst (aget_context env_ok world_two ''Is SYN a flag?'') = ''alpha''
   \<and> llm_calls (snd (chat env_ok world_two ''Is SYN a flag?'' (Some ''c1'')))
     = [[HumanMessage ''Explain TCP handshakes'',
         AIMessage ''<h4><topic>TCP</topic></h4><lesson>SYN</lesson>'',
         HumanMessage ''Why three steps?'',
         AIMessage ''Both sides must agree on sequence numbers before any data flows.'',
         HumanMessage ''Is SYN a flag?'']]
   \<and> HumanMessage ''Is SYN a flag?'' \<noteq> HumanMessage (augmented ''alpha'' ''Is SYN a flag?'')"
  by (simp add: turn_defs sample_defs augmented_def newline_def)

subsection \<open>Listing conversations\<close>

lemma sort_updated_at_desc_sorted:
  "sorted_wrt (\<lambda>a b. updated_at a \<ge> updated_at b) (sort_updated_at_desc docs)"
proof -
  have "sorted (map (\<lambda>d. - updated_at d) (sort_key (\<lambda>d. - updated_at d) docs))"
    by (rule sorted_sort_key)
  then show ?thesis
    by (simp add: sort_updated_at_desc_def sorted_wrt_map)
qed

lemma sort_updated_at_desc_mset: "mset (sort_updated_at_desc docs) = mset docs"
  by (simp add: sort_updated_at_desc_def)

text \<open>
  Claim C8. When the collection is present and the query does not raise,
  \<^verbatim>\<open>list_conversations\<close> returns the summaries of a
  rearrangement of the stored documents that is ordered by \<^verbatim>\<open>updated_at\<close>, latest first: one
  summary per document. The \<^verbatim>\<open>last_message\<close> of a summary is the empty string for a
  conversation without messages, and otherwise the first 50 characters of the content of its
  last message followed by three dots, hence at most 53 characters.
\<close>

theorem list_conversations_sorted_summaries:
  assumes "collection w = Some docs" and "\<not> pymongo_error e (store_ops w)"
  shows "(\<exists>ordered. mset ordered = mset docs
            \<and> sorted_wrt (\<lambda>a b. updated_at a \<ge> updated_at b) ordered
            \<and> fst (list_conversations e w) = map conversation_summary ordered)
         \<and> sorted_wrt (\<lambda>a b. the (summary_updated_at a) \<ge> the (summary_updated_at b))
              (fst (list_conversations e w))
         \<and> length (fst (list_conversations e w)) = length docs
         \<and> last_message (conversation_summary d)
             = (if messages d = [] then [] else take 50 (content (last (messages d))) @ ''...'')
         \<and> length (last_message (conversation_summary d)) \<le> 53"
proof -
  let ?ordered = "sort_updated_at_desc docs"
  have res: "fst (list_conversations e w) = map conversation_summary ?ordered"
    using assms by (simp add: list_conversations_def)
  have srt: "sorted_wrt (\<lambda>a b. updated_at a \<ge> updated_at b) ?ordered"
    by (rule sort_updated_at_desc_sorted)
  have "\<exists>ordered. mset ordered = mset docs
            \<and> sorted_wrt (\<lambda>a b. updated_at a \<ge> updated_at b) ordered
            \<and> fst (list_conversations e w) = map conversation_summary ordered"
    using res srt sort_updated_at_desc_mset by blast
  moreover have "sorted_wrt (\<lambda>a b. the (summary_updated_at a) \<ge> the (summary_updated_at b))
              (fst (list_conversations e w))"
    using srt by (simp add: res sorted_wrt_map conversation_summary_def)
  moreover have "length (fst (list_conversations e w)) = length docs"
    using sort_updated_at_desc_mset [of docs] by (simp add: res) (metis size_mset)
  moreover have "last_message (conversation_summary d)
             = (if messages d = [] then [] else take 50 (content (last (messages d))) @ ''...'')"
    by (simp add: conversation_summary_def)
  moreover have "length (last_message (conversation_summary d)) \<le> 53"
    by (simp add: conversation_summary_def)
  ultimately show ?thesis by blast
qed

theorem list_conversations_sorted_summaries_witness:
  "fst (list_conversations env_ok world_two)
     = [\<lparr>summary_conversation_id = ''c2'', message_count = 0, summary_created_at = Some 6,
          summary_updated_at = Some 8, last_message = []\<rparr>,
        \<lparr>summary_conversation_id = ''c1'', message_count = 4, summary_created_at = Some 1,
          summary_updated_at = Some 5,
          last_message = ''Both sides must agree on sequence numbers before a...''\<rparr>]"
  using list_conversations_sorted_summaries [of world_two "[conv_lesson, conv_untitled]" env_ok conv_lesson]
  by (simp add: list_conversations_def sort_updated_at_desc_def conversation_summary_def sample_defs)

subsection \<open>Effect of a turn on the store\<close>

lemma find_one_upsert_same:
  "conversation_id doc = cid \<Longrightarrow> find_one cid (update_one_upsert cid doc docs) = Some doc"
  by (induction docs) auto

lemma find_one_in_set: "find_one cid docs = Some d \<Longrightarrow> d \<in> set docs \<and> conversation_id d = cid"
  by (induction docs) (auto split: if_splits)

lemma aget_context_frame:
  "collection (snd (aget_context e w message)) = collection w
   \<and> clock_reads (snd (aget_context e w message)) = clock_reads w
   \<and> store_ops (snd (aget_context e w message)) = store_ops w"
  by (simp add: aget_context_def web_search_def Let_def)

lemma build_topic_node_frame:
  "collection (snd (build_topic_node e w msgs)) = collection w
   \<and> clock_reads (snd (build_topic_node e w msgs)) = clock_reads w"
  by (simp add: build_topic_node_def get_context_def invoke_llm_def Let_def split: sum.splits)

lemma get_conversation_frame:
  "collection (snd (get_conversation e w cid)) = collection w
   \<and> clock_reads (snd (get_conversation e w cid)) = clock_reads w"
  by (simp add: get_conversation_def store_op_done_def split: option.splits)

lemma graph_ainvoke_frame:
  "collection (snd (graph_ainvoke e w msgs cid)) = collection w
   \<and> clock_reads (snd (graph_ainvoke e w msgs cid)) = clock_reads w"
proof -
  obtain found w1 where g: "get_conversation e w cid = (found, w1)" by (cases "get_conversation e w cid")
  have f1: "collection w1 = collection w \<and> clock_reads w1 = clock_reads w"
    using get_conversation_frame [of e w cid] g by simp
  show ?thesis
    using f1 build_topic_node_frame [of e w1 msgs]
    by (auto simp: graph_ainvoke_def is_touch_lesson_def g chat_node_def invoke_llm_def Let_def
        case_prod_beta split: option.splits sum.splits)
qed


lemma list_all_upsert:
  "list_all P docs \<Longrightarrow> P doc \<Longrightarrow> list_all P (update_one_upsert cid doc docs)"
  by (induction docs) auto

lemma list_all_delete_one: "list_all P docs \<Longrightarrow> list_all P (delete_one cid docs)"
  by (induction docs) auto

lemma stamps_ok_later:
  assumes "mono clock" and "stamps_ok clock w"
    and "collection w' = collection w" and "clock_reads w \<le> clock_reads w'"
  shows "stamps_ok clock w'"
proof (cases "collection w")
  case None
  then show ?thesis using assms(3) by (simp add: stamps_ok_def)
next
  case (Some docs)
  have le: "clock (clock_reads w) \<le> clock (clock_reads w')"
    using assms(1,4) by (simp add: monoD)
  have "list_all (\<lambda>d. created_at d \<le> updated_at d \<and> updated_at d \<le> clock (clock_reads w)) docs"
    using assms(2) Some by (simp add: stamps_ok_def)
  then have "list_all (\<lambda>d. created_at d \<le> updated_at d \<and> updated_at d \<le> clock (clock_reads w')) docs"
    using le by (auto simp: list_all_iff)
  then show ?thesis using assms(3) Some by (simp add: stamps_ok_def)
qed

lemma save_conversation_stamps_ok:
  assumes "mono clock" and "now e = clock" and "stamps_ok clock w"
    and "created_at c \<le> clock (clock_reads w)"
  shows "stamps_ok clock (snd (save_conversation e w c))"
proof (cases "collection w")
  case None
  then show ?thesis using assms(3) by (simp add: save_conversation_def)
next
  case (Some docs)
  let ?w1 = "w\<lparr>clock_reads := Suc (clock_reads w)\<rparr>"
  have later: "stamps_ok clock ?w1"
    using stamps_ok_later [OF assms(1,3), of ?w1] by simp
  show ?thesis
  proof (cases "pymongo_error e (store_ops w)")
    case True
    then show ?thesis
      using later Some
      by (simp add: save_conversation_def datetime_now_def store_op_done_def stamps_ok_def)
  next
    case False
    have step: "clock (clock_reads w) \<le> clock (Suc (clock_reads w))"
      using assms(1) by (simp add: monoD)
    have all: "list_all (\<lambda>d. created_at d \<le> updated_at d \<and> updated_at d \<le> clock (Suc (clock_reads w))) docs"
      using later Some by (simp add: stamps_ok_def)
    have "list_all (\<lambda>d. created_at d \<le> updated_at d \<and> updated_at d \<le> clock (Suc (clock_reads w)))
            (update_one_upsert (conversation_id c) (c\<lparr>updated_at := clock (clock_reads w)\<rparr>) docs)"
      using all assms(4) step by (intro list_all_upsert) simp_all
    then show ?thesis
      using False Some assms(2)
      by (simp add: save_conversation_def datetime_now_def store_op_done_def stamps_ok_def)
  qed
qed

lemma save_conversation_clock:
  "clock_reads w \<le> clock_reads (snd (save_conversation e w c))"
  by (simp add: save_conversation_def datetime_now_def store_op_done_def split: option.splits)

lemma create_conversation_stamps_ok:
  assumes "mono clock" and "now e = clock" and "stamps_ok clock w"
  shows "stamps_ok clock (snd (create_conversation e w t))"
proof -
  let ?w3 = "w\<lparr>uuid_draws := Suc (uuid_draws w), clock_reads := Suc (Suc (clock_reads w))\<rparr>"
  let ?c = "\<lparr>conversation_id = uuid4 e (uuid_draws w), messages = [], title = t,
             created_at = clock (clock_reads w), updated_at = clock (Suc (clock_reads w))\<rparr>"
  have eq: "snd (create_conversation e w t) = snd (save_conversation e ?w3 ?c)"
    using assms(2) by (simp add: create_conversation_def datetime_now_def case_prod_beta Let_def)
  have ok3: "stamps_ok clock ?w3"
    using stamps_ok_later [OF assms(1,3), of ?w3] by simp
  have "created_at ?c \<le> clock (clock_reads ?w3)"
    using assms(1) by (simp add: monoD)
  then show ?thesis
    unfolding eq using save_conversation_stamps_ok [OF assms(1,2) ok3] by blast
qed


lemma create_conversation_clock:
  "clock_reads w \<le> clock_reads (snd (create_conversation e w t))"
proof -
  let ?w3 = "w\<lparr>uuid_draws := Suc (uuid_draws w), clock_reads := Suc (Suc (clock_reads w))\<rparr>"
  let ?c = "\<lparr>conversation_id = uuid4 e (uuid_draws w), messages = [], title = t,
             created_at = now e (clock_reads w), updated_at = now e (Suc (clock_reads w))\<rparr>"
  have eq: "snd (create_conversation e w t) = snd (save_conversation e ?w3 ?c)"
    by (simp add: create_conversation_def datetime_now_def case_prod_beta Let_def)
  have "clock_reads ?w3 \<le> clock_reads (snd (save_conversation e ?w3 ?c))"
    by (rule save_conversation_clock)
  then show ?thesis unfolding eq by simp
qed

lemma get_conversation_stamps_ok:
  assumes "stamps_ok clock w"
  shows "stamps_ok clock (snd (get_conversation e w cid))"
  using assms get_conversation_frame [of e w cid] by (auto simp: stamps_ok_def split: option.splits)

lemma get_conversation_found:
  assumes "stamps_ok clock w" and "fst (get_conversation e w cid) = Some c"
  shows "created_at c \<le> clock (clock_reads w)"
proof -
  obtain docs where docs: "collection w = Some docs" and f: "find_one cid docs = Some c"
    using assms(2) by (auto simp: get_conversation_def split: option.splits if_splits)
  have "c \<in> set docs" using find_one_in_set [OF f] by simp
  then show ?thesis using assms(1) docs by (auto simp: stamps_ok_def list_all_iff)
qed

lemma chat_turn_failed:
  assumes "fst (chat_turn e w message cid conv) = Inl ex"
  shows "collection (snd (chat_turn e w message cid conv)) = collection w
         \<and> clock_reads (snd (chat_turn e w message cid conv)) = Suc (clock_reads w)"
proof -
  let ?w1 = "w\<lparr>clock_reads := Suc (clock_reads w)\<rparr>"
  obtain ctx w2 where a: "aget_context e ?w1 message = (ctx, w2)" by (cases "aget_context e ?w1 message")
  have f2: "collection w2 = collection w \<and> clock_reads w2 = Suc (clock_reads w)"
    using aget_context_frame [of e ?w1 message] a by simp
  let ?msgs = "convert_to_langchain_messages
      (messages conv @ [\<lparr>role = ''user'', content = message, timestamp = now e (clock_reads w)\<rparr>])"
  obtain r w3 where g: "graph_ainvoke e w2 ?msgs cid = (r, w3)" by (cases "graph_ainvoke e w2 ?msgs cid")
  have f3: "collection w3 = collection w \<and> clock_reads w3 = Suc (clock_reads w)"
    using graph_ainvoke_frame [of e w2 ?msgs cid] g f2 by simp
  show ?thesis
    using assms f3
    by (cases r) (simp_all add: chat_turn_def datetime_now_def a g Let_def case_prod_beta)
qed

lemma chat_turn_replied:
  assumes "fst (chat_turn e w message cid conv) = Inr reply"
  shows "\<exists>w5 msgs. collection w5 = collection w \<and> clock_reads w5 = Suc (Suc (Suc (clock_reads w)))
           \<and> snd (chat_turn e w message cid conv)
              = snd (save_conversation e w5
                  \<lparr>conversation_id = conversation_id conv, messages = msgs,
                   title = (case title conv of None \<Rightarrow> Some message | Some t \<Rightarrow> Some t),
                   created_at = created_at conv,
                   updated_at = now e (Suc (Suc (clock_reads w)))\<rparr>)"
proof -
  let ?w1 = "w\<lparr>clock_reads := Suc (clock_reads w)\<rparr>"
  obtain ctx w2 where a: "aget_context e ?w1 message = (ctx, w2)" by (cases "aget_context e ?w1 message")
  have f2: "collection w2 = collection w \<and> clock_reads w2 = Suc (clock_reads w)
            \<and> store_ops w2 = store_ops w"
    using aget_context_frame [of e ?w1 message] a by simp
  let ?msgs = "convert_to_langchain_messages
      (messages conv @ [\<lparr>role = ''user'', content = message, timestamp = now e (clock_reads w)\<rparr>])"
  obtain r w3 where g: "graph_ainvoke e w2 ?msgs cid = (r, w3)" by (cases "graph_ainvoke e w2 ?msgs cid")
  have f3: "collection w3 = collection w \<and> clock_reads w3 = Suc (clock_reads w)"
    using graph_ainvoke_frame [of e w2 ?msgs cid] g f2 by simp
  show ?thesis
  proof (cases r)
    case (Inl ex)
    then show ?thesis
      using assms by (simp add: chat_turn_def datetime_now_def a g Let_def case_prod_beta)
  next
    case (Inr ai)
    let ?w5 = "w3\<lparr>clock_reads := Suc (Suc (clock_reads w3))\<rparr>"
    let ?um = "\<lparr>role = ''user'', content = message, timestamp = now e (clock_reads w)\<rparr>"
    let ?am = "\<lambda>ai. convert_from_langchain_message ai (now e (Suc (clock_reads w)))"
    let ?c1 = "conv\<lparr>messages := messages conv @ [?um]\<rparr>"
    let ?c2 = "if title ?c1 = None then ?c1\<lparr>title := Some message\<rparr> else ?c1"
    let ?c4 = "?c2\<lparr>messages := messages ?c2 @ [?am ai], updated_at := now e (Suc (Suc (clock_reads w)))\<rparr>"
    have A: "collection ?w5 = collection w \<and> clock_reads ?w5 = Suc (Suc (Suc (clock_reads w)))"
      using f3 by simp
    have B: "snd (chat_turn e w message cid conv) = snd (save_conversation e ?w5 ?c4)"
      using f3 Inr
      by (simp add: chat_turn_def datetime_now_def a g Let_def case_prod_beta)
    have C: "?c4 = \<lparr>conversation_id = conversation_id conv,
                   messages = messages conv @ [?um, ?am ai],
                   title = (case title conv of None \<Rightarrow> Some message | Some t \<Rightarrow> Some t),
                   created_at = created_at conv,
                   updated_at = now e (Suc (Suc (clock_reads w)))\<rparr>"
      by (rule ConversationHistory.equality) (simp_all split: option.splits)
    show ?thesis
      apply (rule exI [of _ ?w5])
      apply (rule exI [of _ "messages conv @ [?um, ?am ai]"])
      unfolding C [symmetric] using A B by simp
  qed
qed

lemma chat_turn_stamps_ok:
  assumes "mono clock" and "now e = clock" and "stamps_ok clock w"
    and "created_at conv \<le> clock (clock_reads w)"
  shows "stamps_ok clock (snd (chat_turn e w message cid conv))"
proof (cases "fst (chat_turn e w message cid conv)")
  case (Inl ex)
  show ?thesis
    using stamps_ok_later [OF assms(1,3), of "snd (chat_turn e w message cid conv)"]
      chat_turn_failed [OF Inl] by simp
next
  case (Inr reply)
  obtain w5 msgs where w5: "collection w5 = collection w"
      "clock_reads w5 = Suc (Suc (Suc (clock_reads w)))"
    and eq: "snd (chat_turn e w message cid conv)
              = snd (save_conversation e w5
                  \<lparr>conversation_id = conversation_id conv, messages = msgs,
                   title = (case title conv of None \<Rightarrow> Some message | Some t \<Rightarrow> Some t),
                   created_at = created_at conv,
                   updated_at = now e (Suc (Suc (clock_reads w)))\<rparr>)"
    using chat_turn_replied [OF Inr] by blast
  have ok5: "stamps_ok clock w5"
    using stamps_ok_later [OF assms(1,3), of w5] w5 by simp
  have "clock (clock_reads w) \<le> clock (clock_reads w5)"
    using assms(1) w5(2) by (simp add: monoD)
  then have "created_at conv \<le> clock (clock_reads w5)"
    using assms(4) by simp
  then show ?thesis
    unfolding eq by (intro save_conversation_stamps_ok [OF assms(1,2) ok5]) simp
qed

lemma resolve_conversation_stamps_ok:
  assumes "mono clock" and "now e = clock" and "stamps_ok clock w"
  shows "stamps_ok clock (snd (resolve_conversation e w message cid_arg))
         \<and> (\<forall>conv. snd (fst (resolve_conversation e w message cid_arg)) = Some conv
              \<longrightarrow> created_at conv \<le> clock (clock_reads (snd (resolve_conversation e w message cid_arg))))"
proof -
  define first where "first =
     (case cid_arg of
        None \<Rightarrow> create_conversation e w (Some message)
      | Some c \<Rightarrow> if c = [] then create_conversation e w (Some message) else (c, w))"
  obtain cid w1 where f: "first = (cid, w1)" by (cases first)
  have ok1: "stamps_ok clock w1"
    using f create_conversation_stamps_ok [OF assms, of "Some message"] assms(3)
    by (auto simp: first_def split: option.splits if_splits)
  obtain found w2 where g: "get_conversation e w1 cid = (found, w2)" by (cases "get_conversation e w1 cid")
  have ok2: "stamps_ok clock w2"
    using get_conversation_stamps_ok [OF ok1, of e cid] g by simp
  have clk2: "clock_reads w2 = clock_reads w1"
    using get_conversation_frame [of e w1 cid] g by simp
  show ?thesis
  proof (cases found)
    case (Some conv)
    have "created_at conv \<le> clock (clock_reads w1)"
      using get_conversation_found [OF ok1, of e cid conv] g Some by simp
    then show ?thesis
      using ok2 clk2 f g Some
      by (simp add: resolve_conversation_def first_def [symmetric] Let_def)
  next
    case None
    obtain cid1 w3 where c: "create_conversation e w2 (Some message) = (cid1, w3)"
      by (cases "create_conversation e w2 (Some message)")
    have ok3: "stamps_ok clock w3"
      using create_conversation_stamps_ok [OF assms(1,2) ok2, of "Some message"] c by simp
    obtain found1 w4 where g1: "get_conversation e w3 cid1 = (found1, w4)"
      by (cases "get_conversation e w3 cid1")
    have ok4: "stamps_ok clock w4"
      using get_conversation_stamps_ok [OF ok3, of e cid1] g1 by simp
    have clk4: "clock_reads w4 = clock_reads w3"
      using get_conversation_frame [of e w3 cid1] g1 by simp
    have "\<forall>conv. found1 = Some conv \<longrightarrow> created_at conv \<le> clock (clock_reads w3)"
      using get_conversation_found [OF ok3, of e cid1] g1 by simp
    then show ?thesis
      using ok4 clk4 f g None c g1
      by (simp add: resolve_conversation_def first_def [symmetric] Let_def)
  qed
qed

lemma chat_stamps_ok:
  assumes "mono clock" and "now e = clock" and "stamps_ok clock w"
  shows "stamps_ok clock (snd (chat e w message cid_arg))"
proof (cases "initialized e")
  case False
  then show ?thesis using assms(3) by (simp add: chat_def)
next
  case True
  obtain cid found w1 where r: "resolve_conversation e w message cid_arg = ((cid, found), w1)"
    by (cases "resolve_conversation e w message cid_arg") auto
  have ok1: "stamps_ok clock w1"
    and fnd: "\<forall>conv. found = Some conv \<longrightarrow> created_at conv \<le> clock (clock_reads w1)"
    using resolve_conversation_stamps_ok [OF assms, of message cid_arg] r by simp_all
  show ?thesis
  proof (cases found)
    case None
    then show ?thesis using True r ok1 by (simp add: chat_def)
  next
    case (Some conv)
    then show ?thesis
      using True r chat_turn_stamps_ok [OF assms(1,2) ok1, of conv message cid] fnd
      by (simp add: chat_def)
  qed
qed

lemma reachable_stamps_ok:
  assumes "mono clock" and "reachable clock w"
  shows "stamps_ok clock w"
  using assms(2)
proof (induction rule: reachable.induct)
  case (start_empty w)
  then show ?case by (simp add: stamps_ok_def)
next
  case (start_absent w)
  then show ?case by (simp add: stamps_ok_def)
next
  case (after_chat w e message cid)
  then show ?case using chat_stamps_ok [OF assms(1)] by simp
next
  case (after_create w e t)
  then show ?case using create_conversation_stamps_ok [OF assms(1)] by simp
next
  case (after_get w e cid)
  then show ?case using get_conversation_stamps_ok by simp
next
  case (after_list w e)
  then show ?case
    by (auto simp: list_conversations_def store_op_done_def stamps_ok_def split: option.splits)
next
  case (after_delete w e cid)
  then show ?case
    by (auto simp: delete_conversation_def store_op_done_def stamps_ok_def list_all_delete_one
        split: option.splits)
qed

lemma find_one_upsert_other:
  "conversation_id doc = cid \<Longrightarrow> other \<noteq> cid \<Longrightarrow>
     find_one other (update_one_upsert cid doc docs) = find_one other docs"
  by (induction docs) auto

lemma save_conversation_healthy:
  assumes "\<forall>n. \<not> pymongo_error e n" and "collection w = Some docs"
  shows "collection (snd (save_conversation e w c))
           = Some (update_one_upsert (conversation_id c) (c\<lparr>updated_at := now e (clock_reads w)\<rparr>) docs)
         \<and> clock_reads (snd (save_conversation e w c)) = Suc (clock_reads w)"
  using assms by (simp add: save_conversation_def datetime_now_def store_op_done_def)

lemma chat_existing_healthy:
  assumes "initialized e" and "\<forall>n. \<not> pymongo_error e n" and "collection w = Some docs"
    and "cid \<noteq> []" and "find_one cid docs = Some conv"
  shows "chat e w message (Some cid) = chat_turn e (store_op_done w) message cid conv"
  using assms by (simp add: chat_def resolve_conversation_def get_conversation_def)

lemma chat_turn_healthy:
  assumes "\<forall>n. \<not> pymongo_error e n" and "collection w = Some docs"
    and "conversation_id conv = cid"
  shows "case fst (chat_turn e w message cid conv) of
           Inl ex \<Rightarrow> collection (snd (chat_turn e w message cid conv)) = Some docs
         | Inr reply \<Rightarrow>
             (\<exists>msgs newdocs. collection (snd (chat_turn e w message cid conv)) = Some newdocs
                \<and> clock_reads (snd (chat_turn e w message cid conv)) = Suc (Suc (Suc (Suc (clock_reads w))))
                \<and> find_one cid newdocs
                   = Some \<lparr>conversation_id = cid, messages = msgs,
                      title = (case title conv of None \<Rightarrow> Some message | Some t \<Rightarrow> Some t),
                      created_at = created_at conv,
                      updated_at = now e (Suc (Suc (Suc (clock_reads w))))\<rparr>
                \<and> (\<forall>other. other \<noteq> cid \<longrightarrow> find_one other newdocs = find_one other docs))"
proof (cases "fst (chat_turn e w message cid conv)")
  case (Inl ex)
  then show ?thesis using chat_turn_failed [OF Inl] assms(2) by simp
next
  case (Inr reply)
  obtain w5 msgs where w5: "collection w5 = collection w"
      "clock_reads w5 = Suc (Suc (Suc (clock_reads w)))"
    and eq: "snd (chat_turn e w message cid conv)
              = snd (save_conversation e w5
                  \<lparr>conversation_id = conversation_id conv, messages = msgs,
                   title = (case title conv of None \<Rightarrow> Some message | Some t \<Rightarrow> Some t),
                   created_at = created_at conv,
                   updated_at = now e (Suc (Suc (clock_reads w)))\<rparr>)"
    using chat_turn_replied [OF Inr] by blast
  have c5: "collection w5 = Some docs" using w5(1) assms(2) by simp
  show ?thesis
    unfolding eq using Inr save_conversation_healthy [OF assms(1) c5] w5(2) assms(3)
    by (simp add: eq find_one_upsert_same find_one_upsert_other)
qed


lemma resolve_new_healthy:
  assumes "\<forall>n. \<not> pymongo_error e n" and "collection w = Some docs"
    and "case cid_arg of None \<Rightarrow> True | Some c \<Rightarrow> c = [] \<or> find_one c docs = None"
  shows "\<exists>w1 docs1 newc. resolve_conversation e w message cid_arg
             = ((uuid4 e (uuid_draws w), Some newc), w1)
           \<and> collection w1 = Some docs1 \<and> find_one (uuid4 e (uuid_draws w)) docs1 = Some newc
           \<and> conversation_id newc = uuid4 e (uuid_draws w) \<and> title newc = Some message"
  using assms
  by (auto simp: resolve_conversation_def create_conversation_def save_conversation_def
      get_conversation_def datetime_now_def store_op_done_def Let_def find_one_upsert_same
      split: option.splits)

text \<open>
  Claim C7. Assume the service is initialised, the store answers every operation, and the
  collection is present. A turn on a stored conversation leaves it stored under the same
  identifier with the same \<^verbatim>\<open>created_at\<close>; when the turn fails the title is what it was,
  and when it succeeds the title is the user text if it was unset and is unchanged if it was
  set. A turn without a usable identifier (none, the empty string, or one that the store does
  not resolve) creates a conversation whose title is the user text of that turn.
\<close>

theorem title_set_once:
  assumes "initialized e" and "\<forall>n. \<not> pymongo_error e n" and "collection w = Some docs"
  shows "(cid \<noteq> [] \<and> find_one cid docs = Some conv \<longrightarrow>
            (\<exists>conv'. stored (snd (chat e w message (Some cid))) cid = Some conv'
               \<and> conversation_id conv' = conversation_id conv
               \<and> created_at conv' = created_at conv
               \<and> title conv' = (case fst (chat e w message (Some cid)) of
                                  Inl ex \<Rightarrow> title conv
                                | Inr reply \<Rightarrow> (case title conv of None \<Rightarrow> Some message | Some t \<Rightarrow> Some t))))
       \<and> ((case cid_arg of None \<Rightarrow> True | Some c \<Rightarrow> c = [] \<or> find_one c docs = None) \<longrightarrow>
            map_option title (stored (snd (chat e w message cid_arg)) (uuid4 e (uuid_draws w)))
              = Some (Some message))"
proof (intro conjI impI)
  assume ex: "cid \<noteq> [] \<and> find_one cid docs = Some conv"
  let ?w0 = "store_op_done w"
  have c0: "collection ?w0 = Some docs" using assms(3) by (simp add: store_op_done_def)
  have id: "conversation_id conv = cid" using find_one_in_set ex by blast
  have eq: "chat e w message (Some cid) = chat_turn e ?w0 message cid conv"
    using chat_existing_healthy [OF assms] ex by blast
  show "\<exists>conv'. stored (snd (chat e w message (Some cid))) cid = Some conv'
               \<and> conversation_id conv' = conversation_id conv
               \<and> created_at conv' = created_at conv
               \<and> title conv' = (case fst (chat e w message (Some cid)) of
                                  Inl ex \<Rightarrow> title conv
                                | Inr reply \<Rightarrow> (case title conv of None \<Rightarrow> Some message | Some t \<Rightarrow> Some t))"
    using chat_turn_healthy [OF assms(2) c0 id, of message] ex id
    by (cases "fst (chat_turn e ?w0 message cid conv)") (auto simp: eq stored_def)
next
  assume new: "case cid_arg of None \<Rightarrow> True | Some c \<Rightarrow> c = [] \<or> find_one c docs = None"
  let ?id = "uuid4 e (uuid_draws w)"
  obtain w1 docs1 newc where r: "resolve_conversation e w message cid_arg = ((?id, Some newc), w1)"
    and c1: "collection w1 = Some docs1" and f1: "find_one ?id docs1 = Some newc"
    and id: "conversation_id newc = ?id" and t: "title newc = Some message"
    using resolve_new_healthy [OF assms(2,3) new, of message] by blast
  have eq: "chat e w message cid_arg = chat_turn e w1 message ?id newc"
    using assms(1) r by (simp add: chat_def)
  show "map_option title (stored (snd (chat e w message cid_arg)) ?id) = Some (Some message)"
    using chat_turn_healthy [OF assms(2) c1 id, of message] f1 t
    by (cases "fst (chat_turn e w1 message ?id newc)") (auto simp: eq stored_def)
qed

theorem title_set_once_witness:
  "map_option title (stored world_two ''c2'') = Some None
   \<and> map_option title (stored (snd (chat env_ok world_two ''Explain TCP handshakes'' (Some ''c2''))) ''c2'')
       = Some (Some ''Explain TCP handshakes'')
   \<and> map_option title
       (stored (snd (chat env_ok (snd (chat env_ok world_two ''Explain TCP handshakes'' (Some ''c2'')))
                  ''Why three steps?'' (Some ''c2''))) ''c2'')
       = Some (Some ''Explain TCP handshakes'')
   \<and> map_option title (stored (snd (chat env_ok world_two ''Explain TCP handshakes'' None)) ''id-a'')
       = Some (Some ''Explain TCP handshakes'')"
  using title_set_once [of env_ok world_two "[conv_lesson, conv_untitled]" "''c2''" conv_untitled
      "''Explain TCP handshakes''" None]
  by (simp add: turn_defs sample_defs stored_def)

subsection \<open>Failure of the language model\<close>

lemma get_context_eq:
  "get_context e w message = (join '' '' (relevant_docs e (7 / 10) message), w)"
  by (simp add: get_context_def Let_def)

text \<open>
  Claim C1, as amended. Take a turn on a stored conversation (a non-empty identifier that the
  store resolves) during which the language model raises on the request of the turn. If the
  history already holds a lesson, the turn is routed to the \<^verbatim>\<open>chat\<close> node: it fails with
  that exception (or with \<^verbatim>\<open>AttributeError\<close> when the classifier's own read of the store
  fails first), and the collection is exactly what it was before the turn. If the history
  holds no lesson, the turn is routed to \<^verbatim>\<open>build_topic\<close>, which catches the exception: with
  the store answering, the turn returns the reply \<^verbatim>\<open>Error building topic\<close>, and the stored
  history is extended by the user message and by that reply, recorded with role
  \<^verbatim>\<open>user\<close>.
\<close>

theorem llm_failure_by_route:
  assumes "initialized e" and "cid \<noteq> []"
    and "collection w = Some docs" and "find_one cid docs = Some conversation"
    and "\<not> pymongo_error e (store_ops w)"
  shows "(lesson_is_generated (messages conversation)
          \<and> llm_invoke e (convert_to_langchain_messages (messages conversation) @ [HumanMessage message])
               = Inl ex
          \<longrightarrow> fst (chat e w message (Some cid))
                 = Inl (if pymongo_error e (Suc (store_ops w)) then AttributeError else ex)
              \<and> collection (snd (chat e w message (Some cid))) = collection w)
       \<and> (\<not> lesson_is_generated (messages conversation) \<and> (\<forall>n. \<not> pymongo_error e n)
          \<and> llm_invoke e (convert_to_langchain_messages (messages conversation)
                 @ [HumanMessage (lesson_prompt (fst (get_context e w message)) message)]) = Inl ex
          \<longrightarrow> fst (chat e w message (Some cid))
                 = Inr \<lparr>reply_message = ''Error building topic'', reply_conversation_id = cid,
                        reply_model = openai_model e, reply_timestamp = now e (Suc (clock_reads w))\<rparr>
              \<and> map_option messages (stored (snd (chat e w message (Some cid))) cid)
                 = Some (messages conversation
                     @ [\<lparr>role = ''user'', content = message, timestamp = now e (clock_reads w)\<rparr>,
                        \<lparr>role = ''user'', content = ''Error building topic'',
                          timestamp = now e (Suc (clock_reads w))\<rparr>]))"
proof (intro conjI impI)
  assume a: "lesson_is_generated (messages conversation)
          \<and> llm_invoke e (convert_to_langchain_messages (messages conversation) @ [HumanMessage message])
               = Inl ex"
  show "fst (chat e w message (Some cid))
                 = Inl (if pymongo_error e (Suc (store_ops w)) then AttributeError else ex)"
    using assms a
    by (simp add: chat_def resolve_conversation_def get_conversation_def store_op_done_def
      chat_turn_def datetime_now_def aget_context_def web_search_def graph_ainvoke_def
      is_touch_lesson_def chat_node_def invoke_llm_def convert_to_langchain_append Let_def
      split: prod.splits)
  show "collection (snd (chat e w message (Some cid))) = collection w"
    using assms a
    by (simp add: chat_def resolve_conversation_def get_conversation_def store_op_done_def
      chat_turn_def datetime_now_def aget_context_def web_search_def graph_ainvoke_def
      is_touch_lesson_def chat_node_def invoke_llm_def convert_to_langchain_append Let_def
      split: prod.splits)
next
  assume b: "\<not> lesson_is_generated (messages conversation) \<and> (\<forall>n. \<not> pymongo_error e n)
          \<and> llm_invoke e (convert_to_langchain_messages (messages conversation)
                 @ [HumanMessage (lesson_prompt (fst (get_context e w message)) message)]) = Inl ex"
  have id: "conversation_id conversation = cid"
    using assms(4) by (induction docs) (auto split: if_splits)
  have healthy: "\<forall>n. \<not> pymongo_error e n" using b by blast
  have eq: "chat e w message (Some cid) = chat_turn e (store_op_done w) message cid conversation"
    using chat_existing_healthy [OF assms(1) healthy assms(3,2,4)] .
  have turn: "chat_turn e (store_op_done w) message cid conversation
      = (Inr \<lparr>reply_message = ''Error building topic'', reply_conversation_id = cid,
                        reply_model = openai_model e, reply_timestamp = now e (Suc (clock_reads w))\<rparr>,
         snd (chat_turn e (store_op_done w) message cid conversation))
      \<and> collection (snd (chat_turn e (store_op_done w) message cid conversation))
         = Some (update_one_upsert cid
              \<lparr>conversation_id = cid,
                messages = messages conversation
                     @ [\<lparr>role = ''user'', content = message, timestamp = now e (clock_reads w)\<rparr>,
                        \<lparr>role = ''user'', content = ''Error building topic'',
                          timestamp = now e (Suc (clock_reads w))\<rparr>],
                title = (case title conversation of None \<Rightarrow> Some message | Some t \<Rightarrow> Some t),
                created_at = created_at conversation,
                updated_at = now e (Suc (Suc (Suc (clock_reads w))))\<rparr> docs)"
    using assms b id
    by (cases conversation; cases "title conversation")
       (simp_all add: get_conversation_def store_op_done_def
      chat_turn_def datetime_now_def aget_context_def web_search_def graph_ainvoke_def
      is_touch_lesson_def build_topic_node_def get_context_eq invoke_llm_def
      convert_to_langchain_append Let_def save_conversation_def case_prod_beta)
  show "fst (chat e w message (Some cid))
                 = Inr \<lparr>reply_message = ''Error building topic'', reply_conversation_id = cid,
                        reply_model = openai_model e, reply_timestamp = now e (Suc (clock_reads w))\<rparr>"
    unfolding eq using turn by (metis fst_conv)
  show "map_option messages (stored (snd (chat e w message (Some cid))) cid)
                 = Some (messages conversation
                     @ [\<lparr>role = ''user'', content = message, timestamp = now e (clock_reads w)\<rparr>,
                        \<lparr>role = ''user'', content = ''Error building topic'',
                          timestamp = now e (Suc (clock_reads w))\<rparr>])"
    unfolding eq using turn by (simp add: stored_def find_one_upsert_same)
qed

theorem llm_failure_by_route_witness:
  "chat env_llm_down world_two ''Is SYN a flag?'' (Some ''c1'')
     = (Inl (CollaboratorError ''model unavailable''),
        world_two\<lparr>clock_reads := 1, store_ops := 2,
          llm_calls := [convert_to_langchain_messages (messages conv_lesson)
                          @ [HumanMessage ''Is SYN a flag?'']],
          web_search_calls := [''Is SYN a flag?'']\<rparr>)
   \<and> fst (chat env_llm_down world_two ''Explain TCP handshakes'' (Some ''c2''))
     = Inr \<lparr>reply_message = ''Error building topic'', reply_conversation_id = ''c2'',
            reply_model = ''gpt-3.5-turbo'', reply_timestamp = 1001\<rparr>
   \<and> map_option messages
        (stored (snd (chat env_llm_down world_two ''Explain TCP handshakes'' (Some ''c2''))) ''c2'')
     = Some [\<lparr>role = ''user'', content = ''Explain TCP handshakes'', timestamp = 1000\<rparr>,
             \<lparr>role = ''user'', content = ''Error building topic'', timestamp = 1001\<rparr>]"
  using llm_failure_by_route [of env_llm_down "''c1''" world_two
      "[conv_lesson, conv_untitled]" conv_lesson "''Is SYN a flag?''"
      "CollaboratorError ''model unavailable''"]
    llm_failure_by_route [of env_llm_down "''c2''" world_two
      "[conv_lesson, conv_untitled]" conv_untitled "''Explain TCP handshakes''"
      "CollaboratorError ''model unavailable''"]
  by (simp add: turn_defs sample_defs stored_def)

text \<open>
  Claim C1 as stated fails on a first turn without an identifier. The language model raises
  on the only request of the turn, yet the turn returns a reply, and the store, empty before,
  holds the new conversation with the user message and the placeholder.
\<close>

theorem first_lesson_llm_failure_counterexample:
  "llm_invoke env_llm_down
      (last (llm_calls (snd (chat env_llm_down world_empty ''Explain TCP handshakes'' None))))
     = Inl (CollaboratorError ''model unavailable'')
   \<and> fst (chat env_llm_down world_empty ''Explain TCP handshakes'' None)
     = Inr \<lparr>reply_message = ''Error building topic'', reply_conversation_id = ''id-a'',
            reply_model = ''gpt-3.5-turbo'', reply_timestamp = 1004\<rparr>
   \<and> collection world_empty = Some []
   \<and> collection (snd (chat env_llm_down world_empty ''Explain TCP handshakes'' None))
     = Some [\<lparr>conversation_id = ''id-a'',
              messages = [\<lparr>role = ''user'', content = ''Explain TCP handshakes'', timestamp = 1003\<rparr>,
                          \<lparr>role = ''user'', content = ''Error building topic'', timestamp = 1004\<rparr>],
              title = Some ''Explain TCP handshakes'', created_at = 1000, updated_at = 1006\<rparr>]"
  by (simp add: turn_defs sample_defs)

subsection \<open>Timestamps\<close>

text \<open>
  Claim C9. Assume that the clock never goes backwards. In every state that the service
  reaches, each stored conversation has \<^verbatim>\<open>created_at\<close> no later than \<^verbatim>\<open>updated_at\<close>. A successful
  turn on a stored conversation (service initialised, store answering) sets its \<^verbatim>\<open>updated_at\<close>
  to the last of the four clock readings of the turn, which is not earlier than the previous
  value, keeps its \<^verbatim>\<open>created_at\<close>, and leaves every other stored conversation as it was.
\<close>

theorem timestamps_invariant:
  assumes "mono clock" and "reachable clock w" and "collection w = Some docs"
  shows "list_all (\<lambda>d. created_at d \<le> updated_at d) docs
       \<and> (now e = clock \<and> initialized e \<and> (\<forall>n. \<not> pymongo_error e n) \<and> cid \<noteq> []
            \<and> find_one cid docs = Some conv \<and> fst (chat e w message (Some cid)) = Inr reply \<longrightarrow>
              map_option updated_at (stored (snd (chat e w message (Some cid))) cid)
                = Some (clock (Suc (Suc (Suc (clock_reads w)))))
            \<and> clock_reads (snd (chat e w message (Some cid))) = Suc (Suc (Suc (Suc (clock_reads w))))
            \<and> updated_at conv \<le> clock (Suc (Suc (Suc (clock_reads w))))
            \<and> map_option created_at (stored (snd (chat e w message (Some cid))) cid)
                = Some (created_at conv)
            \<and> (\<forall>other. other \<noteq> cid \<longrightarrow>
                  stored (snd (chat e w message (Some cid))) other = stored w other))"
proof (intro conjI impI)
  have ok: "stamps_ok clock w" using reachable_stamps_ok [OF assms(1,2)] .
  then have all: "list_all (\<lambda>d. created_at d \<le> updated_at d \<and> updated_at d \<le> clock (clock_reads w)) docs"
    using assms(3) by (simp add: stamps_ok_def)
  then show "list_all (\<lambda>d. created_at d \<le> updated_at d) docs"
    by (auto simp: list_all_iff)
  assume h: "now e = clock \<and> initialized e \<and> (\<forall>n. \<not> pymongo_error e n) \<and> cid \<noteq> []
            \<and> find_one cid docs = Some conv \<and> fst (chat e w message (Some cid)) = Inr reply"
  let ?w0 = "store_op_done w"
  have c0: "collection ?w0 = Some docs" using assms(3) by (simp add: store_op_done_def)
  have k0: "clock_reads ?w0 = clock_reads w" by (simp add: store_op_done_def)
  have healthy: "\<forall>n. \<not> pymongo_error e n" using h by blast
  have id: "conversation_id conv = cid" and mem: "conv \<in> set docs"
    using find_one_in_set h by blast+
  have eq: "chat e w message (Some cid) = chat_turn e ?w0 message cid conv"
    using chat_existing_healthy [OF _ healthy assms(3)] h by blast
  have inr: "fst (chat_turn e ?w0 message cid conv) = Inr reply" using h eq by simp
  obtain msgs newdocs where n: "collection (snd (chat_turn e ?w0 message cid conv)) = Some newdocs"
    and nk: "clock_reads (snd (chat_turn e ?w0 message cid conv)) = Suc (Suc (Suc (Suc (clock_reads w))))"
    and nf: "find_one cid newdocs
                   = Some \<lparr>conversation_id = cid, messages = msgs,
                      title = (case title conv of None \<Rightarrow> Some message | Some t \<Rightarrow> Some t),
                      created_at = created_at conv,
                      updated_at = now e (Suc (Suc (Suc (clock_reads w))))\<rparr>"
    and no: "\<forall>other. other \<noteq> cid \<longrightarrow> find_one other newdocs = find_one other docs"
    using chat_turn_healthy [OF healthy c0 id, of message] inr k0 by auto
  show "map_option updated_at (stored (snd (chat e w message (Some cid))) cid)
                = Some (clock (Suc (Suc (Suc (clock_reads w)))))"
    using n nf h by (simp add: eq stored_def)
  show "clock_reads (snd (chat e w message (Some cid))) = Suc (Suc (Suc (Suc (clock_reads w))))"
    using nk by (simp add: eq)
  have "updated_at conv \<le> clock (clock_reads w)"
    using all mem by (auto simp: list_all_iff)
  moreover have "clock (clock_reads w) \<le> clock (Suc (Suc (Suc (clock_reads w))))"
    using assms(1) by (simp add: monoD)
  ultimately show "updated_at conv \<le> clock (Suc (Suc (Suc (clock_reads w))))" by simp
  show "map_option created_at (stored (snd (chat e w message (Some cid))) cid) = Some (created_at conv)"
    using n nf by (simp add: eq stored_def)
  show "\<forall>other. other \<noteq> cid \<longrightarrow>
                  stored (snd (chat e w message (Some cid))) other = stored w other"
    using n no assms(3) by (simp add: eq stored_def)
qed

theorem timestamps_invariant_witness:
  "collection (snd (create_conversation env_ok world_empty None))
     = Some [\<lparr>conversation_id = ''id-a'', messages = [], title = None,
              created_at = 1000, updated_at = 1002\<rparr>]
   \<and> map_option updated_at
        (stored (snd (chat env_ok (snd (create_conversation env_ok world_empty None))
                   ''Explain TCP handshakes'' (Some ''id-a''))) ''id-a'') = Some 1006
   \<and> map_option created_at
        (stored (snd (chat env_ok (snd (create_conversation env_ok world_empty None))
                   ''Explain TCP handshakes'' (Some ''id-a''))) ''id-a'') = Some 1000"
proof -
  have m: "mono clock_ticks" by (simp add: mono_def clock_ticks_def)
  have r: "reachable clock_ticks (snd (create_conversation env_ok world_empty None))"
    by (rule after_create [OF start_empty]) (simp_all add: sample_defs)
  show ?thesis
    using timestamps_invariant [OF m r,
        of "[\<lparr>conversation_id = ''id-a'', messages = [], title = None,
               created_at = 1000, updated_at = 1002\<rparr>]"
           env_ok "''id-a''"
           "\<lparr>conversation_id = ''id-a'', messages = [], title = None,
              created_at = 1000, updated_at = 1002\<rparr>"
           "''Explain TCP handshakes''"
           "\<lparr>reply_message = ''<h4><topic>TCP</topic></h4><lesson>SYN</lesson>'',
              reply_conversation_id = ''id-a'', reply_model = ''gpt-3.5-turbo'',
              reply_timestamp = 1004\<rparr>"]
    by (simp add: turn_defs sample_defs stored_def)
qed

end
